theory Spec2Isabelle
  imports Complex_Main "HOL-Library.AList"
begin

section \<open>Numbers\<close>

text \<open>
  A TypeScript \<^verbatim>\<open>number\<close> is modelled as a real number extended with the three
  special values of the language: \<^verbatim>\<open>Infinity\<close>, \<^verbatim>\<open>-Infinity\<close> and \<^verbatim>\<open>NaN\<close>. Rounding
  is not modelled (finite arithmetic is exact), and zero stands for \<^verbatim>\<open>+0\<close>. Every
  comparison with \<^verbatim>\<open>NaN\<close> is false, as in the language.
\<close>

datatype number = Fin real | PosInf | NegInf | NaN

fun num_lt :: "number \<Rightarrow> number \<Rightarrow> bool" where
  "num_lt (Fin x) (Fin y) = (x < y)"
| "num_lt NaN _ = False"
| "num_lt _ NaN = False"
| "num_lt NegInf NegInf = False"
| "num_lt NegInf _ = True"
| "num_lt _ NegInf = False"
| "num_lt PosInf _ = False"
| "num_lt _ PosInf = True"

definition num_gt :: "number \<Rightarrow> number \<Rightarrow> bool" where
  "num_gt a b = num_lt b a"

definition num_le :: "number \<Rightarrow> number \<Rightarrow> bool" where
  "num_le a b = (a \<noteq> NaN \<and> b \<noteq> NaN \<and> \<not> num_lt b a)"

definition num_ge :: "number \<Rightarrow> number \<Rightarrow> bool" where
  "num_ge a b = num_le b a"

fun num_neg :: "number \<Rightarrow> number" where
  "num_neg (Fin x) = Fin (- x)"
| "num_neg PosInf = NegInf"
| "num_neg NegInf = PosInf"
| "num_neg NaN = NaN"

fun num_add :: "number \<Rightarrow> number \<Rightarrow> number" where
  "num_add (Fin x) (Fin y) = Fin (x + y)"
| "num_add NaN _ = NaN"
| "num_add _ NaN = NaN"
| "num_add PosInf NegInf = NaN"
| "num_add NegInf PosInf = NaN"
| "num_add PosInf _ = PosInf"
| "num_add NegInf _ = NegInf"
| "num_add _ PosInf = PosInf"
| "num_add _ NegInf = NegInf"

definition num_sub :: "number \<Rightarrow> number \<Rightarrow> number" where
  "num_sub a b = num_add a (num_neg b)"

text \<open>The sign of a number that is not \<^verbatim>\<open>NaN\<close>: \<open>-1\<close>, \<open>0\<close> or \<open>1\<close>.\<close>

fun num_sgn :: "number \<Rightarrow> real" where
  "num_sgn (Fin x) = sgn x"
| "num_sgn PosInf = 1"
| "num_sgn NegInf = - 1"
| "num_sgn NaN = 0"

definition signed_inf :: "real \<Rightarrow> number" where
  "signed_inf s = (if s = 0 then NaN else if 0 < s then PosInf else NegInf)"

fun num_mul :: "number \<Rightarrow> number \<Rightarrow> number" where
  "num_mul (Fin x) (Fin y) = Fin (x * y)"
| "num_mul NaN _ = NaN"
| "num_mul _ NaN = NaN"
| "num_mul a b = signed_inf (num_sgn a * num_sgn b)"

text \<open>
  Division: a finite nonzero number divided by zero is an infinity, \<open>0 / 0\<close> is
  \<^verbatim>\<open>NaN\<close>; HOL's own \<open>x / 0 = 0\<close> is never used for a zero divisor.
\<close>

fun num_div :: "number \<Rightarrow> number \<Rightarrow> number" where
  "num_div (Fin x) (Fin y) = (if y = 0 then signed_inf x else Fin (x / y))"
| "num_div NaN _ = NaN"
| "num_div _ NaN = NaN"
| "num_div (Fin x) _ = Fin 0"
| "num_div a (Fin y) = signed_inf (num_sgn a * (if y < 0 then - 1 else 1))"
| "num_div _ _ = NaN"

fun num_abs :: "number \<Rightarrow> number" where
  "num_abs (Fin x) = Fin \<bar>x\<bar>"
| "num_abs NaN = NaN"
| "num_abs _ = PosInf"

text \<open>\<^verbatim>\<open>Math.min\<close> of two numbers.\<close>

definition num_min :: "number \<Rightarrow> number \<Rightarrow> number" where
  "num_min a b = (if a = NaN \<or> b = NaN then NaN else if num_lt b a then b else a)"

definition odd_integer :: "real \<Rightarrow> bool" where
  "odd_integer y = (y \<in> \<int> \<and> odd \<lfloor>y\<rfloor>)"

text \<open>\<^verbatim>\<open>Math.pow\<close>, following the case list of the language definition.\<close>

fun num_pow :: "number \<Rightarrow> number \<Rightarrow> number" where
  "num_pow b NaN = NaN"
| "num_pow b (Fin y) =
     (if y = 0 then Fin 1
      else case b of
        NaN \<Rightarrow> NaN
      | PosInf \<Rightarrow> (if 0 < y then PosInf else Fin 0)
      | NegInf \<Rightarrow> (if 0 < y then (if odd_integer y then NegInf else PosInf) else Fin 0)
      | Fin x \<Rightarrow>
          (if x = 0 then (if 0 < y then Fin 0 else PosInf)
           else if x < 0 \<and> y \<notin> \<int> then NaN
           else if x < 0 then Fin (x powi \<lfloor>y\<rfloor>)
           else Fin (x powr y)))"
| "num_pow b PosInf =
     (case b of
        NaN \<Rightarrow> NaN
      | Fin x \<Rightarrow> (if 1 < \<bar>x\<bar> then PosInf else if \<bar>x\<bar> = 1 then NaN else Fin 0)
      | _ \<Rightarrow> PosInf)"
| "num_pow b NegInf =
     (case b of
        NaN \<Rightarrow> NaN
      | Fin x \<Rightarrow> (if 1 < \<bar>x\<bar> then Fin 0 else if \<bar>x\<bar> = 1 then NaN else PosInf)
      | _ \<Rightarrow> Fin 0)"

section \<open>Errors\<close>

text \<open>
  Every \<^verbatim>\<open>throw\<close> of the source is a value of this type. \<open>ValueOutOfBounds\<close> carries
  the three numbers of the message of \<^verbatim>\<open>mapClampThrow\<close>, \<open>StrengthNotInRange\<close> the
  strength of the message of \<^verbatim>\<open>meme\<close>, \<open>AssertionFailed\<close> the message given to
  \<^verbatim>\<open>assert\<close>. The remaining ones are the failures of the aggregation engine.
\<close>

datatype error =
    ValueOutOfBounds number number number
  | StrengthNotInRange number
  | AssertionFailed string
  | EmptyCombineInput
  | DanglingReference string
  | CyclicEntryGraph "string list"
  | ExtensionDependencyError

section \<open>The range-clamping helper\<close>

definition mapClampThrow ::
  "number \<Rightarrow> number \<Rightarrow> number \<Rightarrow> number \<Rightarrow> number \<Rightarrow> error + number" where
  "mapClampThrow inp iMin iMax oMin oMax =
     (let factor = num_div (num_sub inp iMin) (num_sub inp iMax)
      in if num_lt factor (Fin 0) \<or> num_gt factor (Fin 1)
         then Inl (ValueOutOfBounds factor iMin iMax)
         else Inr (num_add oMin (num_mul (num_sub oMax oMin) factor)))"

section \<open>The data model\<close>

type_synonym Id = string

text \<open>
  A \<^verbatim>\<open>Map\<close> of the language keeps its keys in insertion order; it is an
  association list with distinct keys, \<^verbatim>\<open>set\<close> is \<^const>\<open>AList.update\<close> (an
  existing key keeps its place and takes the new value, a new key goes to the end) and
  \<^verbatim>\<open>get\<close> is \<^const>\<open>map_of\<close>.
\<close>

type_synonym ('k, 'v) Map = "('k \<times> 'v) list"

text \<open>
  Modelled from the spec: the type \<^verbatim>\<open>Vector\<close> of \<^verbatim>\<open>math.ts\<close>, which is not among
  the sources, is an ordered sequence of numbers, one per factor index. It is taken as
  an array of the language: writing at an index inside the array replaces the element,
  writing beyond its end extends the array, leaving holes (\<open>None\<close>) in between.
\<close>

type_synonym Vector = "number option list"

definition vec_set :: "Vector \<Rightarrow> nat \<Rightarrow> number \<Rightarrow> Vector" where
  "vec_set vec i v =
     (if i < length vec then vec[i := Some v]
      else vec @ replicate (i - length vec) None @ [Some v])"

record 'meta HasMeta =
  DAH_meta :: 'meta

record ('m, 'meta) Entry = "'meta HasMeta" +
  idE :: Id
  children :: "(Id, 'm) Map"

record ('m, 'meta) Impact = "'meta HasMeta" +
  contributors :: "(Id, 'm) Map"
  score :: Vector

record ('m, 'meta) Relation = "'meta HasMeta" +
  contributorsR :: "(Id, 'm) Map"
  references :: "(Id, 'm) Map"

record ('m, 'meta) Data =
  entries :: "(Id, ('m, 'meta) Entry) Map"
  impacts :: "('m, 'meta) Impact list"
  relations :: "('m, 'meta) Relation list"

text \<open>
  \<^verbatim>\<open>indexEntry\<close>: the loop over the entries is a left fold, each step one
  \<^verbatim>\<open>map.set(entry.id, entry)\<close>.
\<close>

definition indexEntry :: "('m, 'meta) Entry list \<Rightarrow> (Id, ('m, 'meta) Entry) Map" where
  "indexEntry ents = foldl (\<lambda>m entry. AList.update (idE entry) entry m) [] ents"

section \<open>The standards extension\<close>

text \<open>
  A factor as the extension reads it: its name, its index into a vector and its factor
  weight. The declarations are in \<^verbatim>\<open>DAH_factors.ts\<close>, which is not among the sources.
\<close>

record FactorScore =
  name :: string
  factorIndex :: nat
  factorWeight :: number

type_synonym WeightedEmotions = "(FactorScore \<times> number) list"
type_synonym Contributors = "(Id, number) Map"

datatype Sign = Positive | Negative

fun sign_value :: "Sign \<Rightarrow> number" where
  "sign_value Positive = Fin 1"
| "sign_value Negative = Fin (- 1)"

text \<open>
  Dates and durations come from an external library. A \<^verbatim>\<open>DateTime\<close> is modelled as
  its instant in milliseconds since the epoch, a \<^verbatim>\<open>Duration\<close> as its length in
  milliseconds; \<^verbatim>\<open>a.diff(b)\<close> is the duration \<open>a - b\<close>, \<^verbatim>\<open>plus\<close> adds lengths and
  \<^verbatim>\<open>as("days")\<close> divides by the milliseconds of a day. Only valid dates and valid
  durations of finite length are values of these types; what the library does with an
  invalid or infinite one is not modelled.
\<close>

type_synonym DateTime = int
type_synonym Duration = real

definition diff :: "DateTime \<Rightarrow> DateTime \<Rightarrow> Duration" where
  "diff a b = real_of_int (a - b)"

definition fromMillis :: "real \<Rightarrow> Duration" where
  "fromMillis ms = ms"

definition plus_duration :: "Duration \<Rightarrow> Duration \<Rightarrow> Duration" where
  "plus_duration a b = a + b"

definition as_days :: "Duration \<Rightarrow> number" where
  "as_days d = Fin (d / 86400000)"

datatype DatePeriod = FromToPeriod DateTime DateTime | DurationPeriod Duration

text \<open>
  Provenance metadata: the values an impact carries in \<^verbatim>\<open>DAH_meta\<close>. \<open>MISO d\<close>
  stands for the ISO text of the duration \<open>d\<close>, which is not spelled out.
\<close>

datatype meta =
    MString string
  | MNumber number
  | MDuration Duration
  | MISO Duration
  | MDateTime DateTime
  | MArray "meta list"
  | MObject "(string \<times> meta) list"

text \<open>An object literal that ends with a spread \<^verbatim>\<open>...meta\<close>.\<close>

definition spread :: "(string \<times> meta) list \<Rightarrow> (string \<times> meta) list \<Rightarrow> (string \<times> meta) list" where
  "spread obj extra = foldl (\<lambda>ob (k, v). AList.update k v ob) obj extra"

text \<open>
  What the extension imports from \<^verbatim>\<open>process.ts\<close> and \<^verbatim>\<open>DAH_factors.ts\<close>, neither of
  which is among the sources: the functions \<^verbatim>\<open>combine\<close> and \<^verbatim>\<open>newZeroVector\<close>, the
  subscore weight of the emotion factors and the two factors \<^verbatim>\<open>AP\<close> and \<^verbatim>\<open>MP\<close>.
  They are parameters of every function below. \<^verbatim>\<open>combine\<close> may fail.
\<close>

record ('c, 'w) Imports =
  combine :: "'c \<Rightarrow> number list \<Rightarrow> 'w \<Rightarrow> error + number"
  newZeroVector :: "'c \<Rightarrow> Vector"
  Emotion_subscoreWeight :: 'w
  AP :: FactorScore
  MP :: FactorScore

text \<open>
  Modelled from the spec: \<^verbatim>\<open>assert\<close> of \<^verbatim>\<open>utils.ts\<close>, which is not among the
  sources. A caller guards with it and refuses to go on when the condition is false:
  it fails with the given message.
\<close>

definition assert :: "bool \<Rightarrow> string \<Rightarrow> error + unit" where
  "assert cond msg = (if cond then Inr () else Inl (AssertionFailed msg))"

definition dependencies :: "string list" where
  "dependencies = [''DAH_factors'']"

definition emotionVector ::
  "('c, 'w) Imports \<Rightarrow> 'c \<Rightarrow> number \<Rightarrow> WeightedEmotions \<Rightarrow> error + Vector" where
  "emotionVector I context baseScore emotions =
     (case assert (length emotions > 0) ''empty emotion list'' of
        Inl e \<Rightarrow> Inl e
      | Inr _ \<Rightarrow>
          (let contribFactors = map snd emotions
           in case combine I context contribFactors (Emotion_subscoreWeight I) of
                Inl e \<Rightarrow> Inl e
              | Inr combinedFactor \<Rightarrow>
                  Inr (foldl (\<lambda>vec (emotion, factor).
                         vec_set vec (factorIndex emotion)
                           (num_div (num_mul baseScore (num_pow factor (Fin 0.9))) combinedFactor))
                       (newZeroVector I context) emotions)))"

definition irMeta :: "(string \<times> meta) list \<Rightarrow> (string \<times> meta) list" where
  "irMeta m =
     [(''DAH_ir_source'',
       MObject (spread [(''extension'', MString ''DAH_standards''),
                        (''version'', MString ''1.1.1'')] m))]"

definition impactMeta :: "(string \<times> meta) list \<Rightarrow> (string \<times> meta) list" where
  "impactMeta m = irMeta m"

definition emotionPairsToObject :: "WeightedEmotions \<Rightarrow> (string \<times> meta) list" where
  "emotionPairsToObject emotions =
     foldl (\<lambda>ob (emotion, weight). AList.update (name emotion) (MNumber weight) ob) [] emotions"

definition emotionMeta :: "number \<Rightarrow> WeightedEmotions \<Rightarrow> meta" where
  "emotionMeta base emotions =
     MObject [(''base'', MNumber base), (''emotions'', MObject (emotionPairsToObject emotions))]"

type_synonym StdImpact = "(number, (string \<times> meta) list) Impact"

definition emotion ::
  "('c, 'w) Imports \<Rightarrow> 'c \<Rightarrow> Contributors \<Rightarrow> number \<Rightarrow> WeightedEmotions \<Rightarrow> string \<Rightarrow>
   (string \<times> meta) list \<Rightarrow> error + StdImpact" where
  "emotion I context contribs base emotions nm m =
     (case emotionVector I context base emotions of
        Inl e \<Rightarrow> Inl e
      | Inr vec \<Rightarrow>
          Inr \<lparr>DAH_meta = impactMeta (spread [(''name'', MString nm),
                                              (''emotionArgs'', emotionMeta base emotions)] m),
               contributors = contribs, score = vec\<rparr>)"

definition cry ::
  "('c, 'w) Imports \<Rightarrow> 'c \<Rightarrow> Contributors \<Rightarrow> WeightedEmotions \<Rightarrow> error + StdImpact" where
  "cry I context contribs emotions = emotion I context contribs (Fin 4) emotions ''cry'' []"

fun periodLength :: "DatePeriod \<Rightarrow> Duration" where
  "periodLength (DurationPeriod len) = len"
| "periodLength (FromToPeriod from_dt to_dt) = diff from_dt to_dt"

definition periodsLength :: "DatePeriod list \<Rightarrow> Duration" where
  "periodsLength periods =
     foldl (\<lambda>duration period. plus_duration duration (periodLength period)) (fromMillis 0) periods"

fun periodMeta :: "DatePeriod \<Rightarrow> meta" where
  "periodMeta (DurationPeriod len) =
     MObject [(''type'', MString ''duration''), (''duration'', MISO len)]"
| "periodMeta (FromToPeriod from_dt to_dt) =
     MObject [(''type'', MString ''fromto''), (''from'', MDateTime from_dt),
              (''to'', MDateTime to_dt), (''duration'', MISO (diff from_dt to_dt))]"

definition pads ::
  "('c, 'w) Imports \<Rightarrow> 'c \<Rightarrow> Contributors \<Rightarrow> DatePeriod list \<Rightarrow> WeightedEmotions \<Rightarrow>
   error + StdImpact" where
  "pads I context contribs periods emotions =
     (let a = Fin 0.3; p = Fin 1.3;
          duration = periodsLength periods;
          days = as_days duration;
          base = num_mul a (num_pow (num_min (Fin 10) days) p)
      in emotion I context contribs base emotions ''pads''
           [(''padsArgs'', MObject [(''duration'', MDuration duration), (''days'', MNumber days),
                                    (''periods'', MArray (map periodMeta periods))])])"

definition xei ::
  "('c, 'w) Imports \<Rightarrow> 'c \<Rightarrow> Contributors \<Rightarrow> string \<Rightarrow> number \<Rightarrow> Sign \<Rightarrow> number \<Rightarrow>
   WeightedEmotions \<Rightarrow> error + StdImpact" where
  "xei I context contribs nm factor sign base emotions =
     emotion I context contribs base emotions nm
       [(''xeiArgs'', MObject [(''factor'', MNumber factor),
          (''sign'', MString (if num_gt (sign_value sign) (Fin 0) then ''positive''
                              else ''negative''))])]"

definition aei ::
  "('c, 'w) Imports \<Rightarrow> 'c \<Rightarrow> Contributors \<Rightarrow> number \<Rightarrow> Sign \<Rightarrow> WeightedEmotions \<Rightarrow>
   error + StdImpact" where
  "aei I context contribs factor sign emotions =
     (case mapClampThrow (num_abs factor) (Fin 0) (Fin 1) (Fin 2) (Fin 3) of
        Inl e \<Rightarrow> Inl e
      | Inr m \<Rightarrow> xei I context contribs ''aei'' factor sign (num_mul m (sign_value sign)) emotions)"

definition nei ::
  "('c, 'w) Imports \<Rightarrow> 'c \<Rightarrow> Contributors \<Rightarrow> number \<Rightarrow> Sign \<Rightarrow> WeightedEmotions \<Rightarrow>
   error + StdImpact" where
  "nei I context contribs factor sign emotions =
     (case mapClampThrow (num_abs factor) (Fin 0) (Fin 1) (Fin 0) (Fin 2) of
        Inl e \<Rightarrow> Inl e
      | Inr m \<Rightarrow> xei I context contribs ''nei'' factor sign (num_mul m (sign_value sign)) emotions)"

definition maxAEIPADS ::
  "('c, 'w) Imports \<Rightarrow> 'c \<Rightarrow> Contributors \<Rightarrow> DatePeriod list \<Rightarrow> WeightedEmotions \<Rightarrow>
   error + StdImpact list" where
  "maxAEIPADS I context contribs periods emotions =
     (case aei I context contribs (Fin 1) Positive emotions of
        Inl e \<Rightarrow> Inl e
      | Inr i1 \<Rightarrow>
          (case pads I context contribs periods emotions of
             Inl e \<Rightarrow> Inl e
           | Inr i2 \<Rightarrow> Inr [i1, i2]))"

definition cryPADS ::
  "('c, 'w) Imports \<Rightarrow> 'c \<Rightarrow> Contributors \<Rightarrow> DatePeriod list \<Rightarrow> WeightedEmotions \<Rightarrow>
   error + StdImpact list" where
  "cryPADS I context contribs periods emotions =
     (case cry I context contribs emotions of
        Inl e \<Rightarrow> Inl e
      | Inr i1 \<Rightarrow>
          (case pads I context contribs periods emotions of
             Inl e \<Rightarrow> Inl e
           | Inr i2 \<Rightarrow> Inr [i1, i2]))"

definition waifu ::
  "('c, 'w) Imports \<Rightarrow> 'c \<Rightarrow> Contributors \<Rightarrow> string \<Rightarrow> DatePeriod list \<Rightarrow> error + StdImpact" where
  "waifu I context contribs w periods =
     (let duration = periodsLength periods;
          days = as_days duration;
          base = num_mul (Fin 1.2) (num_pow (num_div days (Fin 90)) (factorWeight (MP I)))
      in emotion I context contribs base [(MP I, Fin 1)] ''waifu''
           [(''waifuArgs'', MObject [(''waifu'', MString w), (''duration'', MDuration duration),
                                     (''days'', MNumber days),
                                     (''periods'', MArray (map periodMeta periods))])])"

definition ehi :: "('c, 'w) Imports \<Rightarrow> 'c \<Rightarrow> Contributors \<Rightarrow> error + StdImpact" where
  "ehi I context contribs = emotion I context contribs (Fin 3.5) [(AP I, Fin 1)] ''ehi'' []"

definition epi :: "('c, 'w) Imports \<Rightarrow> 'c \<Rightarrow> Contributors \<Rightarrow> number \<Rightarrow> error + StdImpact" where
  "epi I context contribs factor =
     (case mapClampThrow factor (Fin 0) (Fin 1) (Fin 3.5) (Fin 4.5) of
        Inl e \<Rightarrow> Inl e
      | Inr base \<Rightarrow>
          emotion I context contribs base [(AP I, Fin 1)] ''epi''
            [(''epiArgs'', MObject [(''factor'', MNumber factor)])])"

definition meme ::
  "('c, 'w) Imports \<Rightarrow> 'c \<Rightarrow> Contributors \<Rightarrow> number \<Rightarrow> DatePeriod list \<Rightarrow> error + StdImpact" where
  "meme I context contribs strength periods =
     (if num_lt strength (Fin 0) \<or> num_ge strength (Fin 2)
      then Inl (StrengthNotInRange strength)
      else
        (let duration = periodsLength periods;
             days = as_days duration;
             base = num_mul (num_mul strength
                      (num_pow (num_div days (Fin 120)) (factorWeight (AP I)))) (Fin 4)
         in emotion I context contribs base [(AP I, Fin 1)] ''meme''
              [(''memeArgs'', MObject [(''strength'', MNumber strength),
                                       (''periods'', MArray (map periodMeta periods)),
                                       (''duration'', MISO duration)])]))"

definition vector :: "('c, 'w) Imports \<Rightarrow> 'c \<Rightarrow> (FactorScore \<times> number) list \<Rightarrow> Vector" where
  "vector I context vals =
     foldl (\<lambda>vec (factor, v). vec_set vec (factorIndex factor) v) (newZeroVector I context) vals"

definition osuSong ::
  "('c, 'w) Imports \<Rightarrow> 'c \<Rightarrow> Contributors \<Rightarrow> number \<Rightarrow> number \<Rightarrow> error + StdImpact" where
  "osuSong I context contribs personal community =
     (case mapClampThrow personal (Fin 0) (Fin 1) (Fin 0) (Fin 0.5) of
        Inl e \<Rightarrow> Inl e
      | Inr personalFactor \<Rightarrow>
          (case mapClampThrow community (Fin 0) (Fin 1) (Fin 0) (Fin 0.2) of
             Inl e \<Rightarrow> Inl e
           | Inr communityFactor \<Rightarrow>
               Inr \<lparr>DAH_meta = impactMeta [(''name'', MString ''osuSong''),
                                           (''personal'', MNumber personal),
                                           (''community'', MNumber community)],
                    contributors = contribs,
                    score = vector I context [(AP I, num_add personalFactor communityFactor)]\<rparr>))"

section \<open>The extension dependency resolver\<close>

text \<open>An extension, as the resolver sees it: its name and what \<^verbatim>\<open>dependencies()\<close> returns.\<close>

type_synonym Extension = "string \<times> string list"

text \<open>
  Modelled from the spec: the resolver of \<^verbatim>\<open>ext.ts\<close>, which is not among the sources.
  It sorts the extensions topologically over their declared dependencies: it
  initializes, one at a time, a pending extension all of whose prerequisites are
  initialized already, and fails with \<open>ExtensionDependencyError\<close> when extensions are
  left and none of them can go next (a dependency is missing, or the declarations form
  a cycle). The result is the order of initialization.
\<close>

function resolve_from :: "Extension list \<Rightarrow> string list \<Rightarrow> error + string list" where
  "resolve_from pending initialized =
     (if pending = [] then Inr initialized
      else case find (\<lambda>ext. set (snd ext) \<subseteq> set initialized) pending of
             None \<Rightarrow> Inl ExtensionDependencyError
           | Some ext \<Rightarrow> resolve_from (remove1 ext pending) (initialized @ [fst ext]))"
  by pat_completeness auto
termination
proof (relation "measure (\<lambda>(pending, initialized). length pending)")
  show "wf (measure (\<lambda>(pending, initialized). length pending))" by simp
next
  fix pending :: "Extension list" and initialized :: "string list" and ext
  assume "pending \<noteq> []"
    and "find (\<lambda>ext. set (snd ext) \<subseteq> set initialized) pending = Some ext"
  then have "ext \<in> set pending" by (auto simp: find_Some_iff)
  then have "length (remove1 ext pending) < length pending"
    using length_pos_if_in_set [of ext pending] by (simp add: length_remove1)
  then show "((remove1 ext pending, initialized @ [fst ext]), (pending, initialized))
      \<in> measure (\<lambda>(pending, initialized). length pending)"
    by simp
qed

text \<open>
  Modelled from the spec: the entry point of the resolver of \<^verbatim>\<open>ext.ts\<close>; all the
  registered extensions are pending and none is initialized.
\<close>

definition resolve :: "Extension list \<Rightarrow> error + string list" where
  "resolve exts = resolve_from exts []"

text \<open>The standards extension as the resolver sees it.\<close>

definition DAH_standards :: Extension where
  "DAH_standards = (''DAH_standards'', dependencies)"

section \<open>The propagation engine: reference check and cycle detection\<close>

text \<open>
  The propagation engine is in \<^verbatim>\<open>process.ts\<close>, which is not among the sources. Of its
  algorithm, step 1 (build the entry index, fail with \<open>DanglingReference\<close> on an id
  that the index does not hold) and step 2 (depth-first cycle detection) are written
  out below. Steps 3 to 6, which compute the scores once both checks have passed, are
  the parameter \<open>score_entries\<close> of the engine.
\<close>

text \<open>
  Modelled from the spec: the ids that step 1 of the engine of \<^verbatim>\<open>process.ts\<close> looks up,
  namely the children of every entry and the contributors and references of every
  impact and relation.
\<close>

definition referenced_ids :: "('m, 'meta) Data \<Rightarrow> Id list" where
  "referenced_ids d =
     concat (map (\<lambda>(k, e). map fst (children e)) (entries d))
     @ concat (map (\<lambda>i. map fst (contributors i)) (impacts d))
     @ concat (map (\<lambda>r. map fst (contributorsR r) @ map fst (references r)) (relations d))"

text \<open>
  Modelled from the spec: the reference check of step 1 of the engine of
  \<^verbatim>\<open>process.ts\<close>; the first referenced id that the index does not hold is reported.
\<close>

definition check_references ::
  "(Id, ('m, 'meta) Entry) Map \<Rightarrow> ('m, 'meta) Data \<Rightarrow> error option" where
  "check_references idx d =
     (case find (\<lambda>i. map_of idx i = None) (referenced_ids d) of
        Some i \<Rightarrow> Some (DanglingReference i)
      | None \<Rightarrow> None)"

text \<open>
  Modelled from the spec: the cycle detection of step 2 of the engine of
  \<^verbatim>\<open>process.ts\<close>, depth-first along the children of each entry, tracking the active
  recursion path (innermost id first). An id that is on the active path already fails
  with \<open>CyclicEntryGraph\<close> and the path that leads to it.
\<close>

function visit :: "(Id, ('m, 'meta) Entry) Map \<Rightarrow> Id list \<Rightarrow> Id \<Rightarrow> error option"
  and visit_all :: "(Id, ('m, 'meta) Entry) Map \<Rightarrow> Id list \<Rightarrow> Id list \<Rightarrow> error option" where
  "visit idx path v =
     (if v \<in> set path then Some (CyclicEntryGraph (rev (v # path)))
      else case map_of idx v of
             None \<Rightarrow> None
           | Some e \<Rightarrow> visit_all idx (v # path) (map fst (children e)))"
| "visit_all idx path [] = None"
| "visit_all idx path (c # cs) =
     (case visit idx path c of
        Some err \<Rightarrow> Some err
      | None \<Rightarrow> visit_all idx path cs)"
  by pat_completeness auto
termination
proof (relation "measures [
    (\<lambda>x. case x of Inl (idx, path, v) \<Rightarrow> card (fst ` set idx - set path)
                  | Inr (idx, path, cs) \<Rightarrow> card (fst ` set idx - set path)),
    (\<lambda>x. case x of Inl (idx, path, v) \<Rightarrow> 0 | Inr (idx, path, cs) \<Rightarrow> Suc (length cs))]")
  show "wf (measures [
    (\<lambda>x. case x of Inl (idx, path, v) \<Rightarrow> card (fst ` set idx - set path)
                  | Inr (idx, path, cs) \<Rightarrow> card (fst ` set idx - set path)),
    (\<lambda>x. case x of Inl (idx, path, v) \<Rightarrow> 0 | Inr (idx, path, cs) \<Rightarrow> Suc (length cs))])"
    by simp
next
  fix idx :: "(Id, ('m, 'meta) Entry) Map" and path v e
  assume "v \<notin> set path" and "map_of idx v = Some e"
  then have "v \<in> fst ` set idx - set path"
    by (auto dest: map_of_SomeD intro: rev_image_eqI)
  then have "card (fst ` set idx - set (v # path)) < card (fst ` set idx - set path)"
    by (intro psubset_card_mono) auto
  then show "(Inr (idx, v # path, map fst (children e)), Inl (idx, path, v)) \<in> measures [
    (\<lambda>x. case x of Inl (idx, path, v) \<Rightarrow> card (fst ` set idx - set path)
                  | Inr (idx, path, cs) \<Rightarrow> card (fst ` set idx - set path)),
    (\<lambda>x. case x of Inl (idx, path, v) \<Rightarrow> 0 | Inr (idx, path, cs) \<Rightarrow> Suc (length cs))]"
    by simp
qed auto

text \<open>
  Modelled from the spec: step 2 of the engine of \<^verbatim>\<open>process.ts\<close> starts a traversal at
  every indexed entry, with an empty path.
\<close>

definition detect_cycle :: "(Id, ('m, 'meta) Entry) Map \<Rightarrow> error option" where
  "detect_cycle idx = visit_all idx [] (map fst idx)"

text \<open>
  Modelled from the spec: the engine of \<^verbatim>\<open>process.ts\<close>. The index is built by
  \<^verbatim>\<open>indexEntry\<close> from the entries of the snapshot; a failure of either check aborts the
  run and no score is returned.
\<close>

definition propagate ::
  "((Id, ('m, 'meta) Entry) Map \<Rightarrow> ('m, 'meta) Data \<Rightarrow> (Id, Vector) Map) \<Rightarrow>
   ('m, 'meta) Data \<Rightarrow> error + (Id, Vector) Map" where
  "propagate score_entries d =
     (let idx = indexEntry (map snd (entries d))
      in case check_references idx d of
           Some err \<Rightarrow> Inl err
         | None \<Rightarrow>
             (case detect_cycle idx of
                Some err \<Rightarrow> Inl err
              | None \<Rightarrow> Inr (score_entries idx d)))"

text \<open>
  The children graph of an index: an edge leads from the id of an indexed entry to each
  key of its \<^verbatim>\<open>children\<close> map. The graph contains a cycle when some id reaches itself
  along one edge or more.
\<close>

definition entry_children :: "(Id, ('m, 'meta) Entry) Map \<Rightarrow> Id \<Rightarrow> Id list" where
  "entry_children idx v = (case map_of idx v of None \<Rightarrow> [] | Some e \<Rightarrow> map fst (children e))"

definition children_graph :: "(Id, ('m, 'meta) Entry) Map \<Rightarrow> (Id \<times> Id) set" where
  "children_graph idx = {(u, v). v \<in> set (entry_children idx u)}"

definition has_cycle :: "(Id, ('m, 'meta) Entry) Map \<Rightarrow> bool" where
  "has_cycle idx = (\<exists>v. (v, v) \<in> (children_graph idx)\<^sup>+)"

section \<open>Example inputs\<close>

text \<open>
  Two entries that are each other's child, \<open>A \<rightarrow> B \<rightarrow> A\<close>; a snapshot of them alone;
  the same snapshot with one impact whose contributor \<open>Z\<close> is no entry; and a scoring
  step that returns no scores, for the examples in which the engine never reaches it.
\<close>

definition cyclic_entries :: "(Id, (unit, unit) Entry) Map" where
  "cyclic_entries =
     [(''A'', \<lparr>DAH_meta = (), idE = ''A'', children = [(''B'', ())]\<rparr>),
      (''B'', \<lparr>DAH_meta = (), idE = ''B'', children = [(''A'', ())]\<rparr>)]"

definition cyclic_data :: "(unit, unit) Data" where
  "cyclic_data = \<lparr>entries = cyclic_entries, impacts = [], relations = []\<rparr>"

definition cyclic_dangling_data :: "(unit, unit) Data" where
  "cyclic_dangling_data =
     \<lparr>entries = cyclic_entries,
      impacts = [\<lparr>DAH_meta = (), contributors = [(''Z'', ())], score = []\<rparr>],
      relations = []\<rparr>"

definition no_scores :: "(Id, (unit, unit) Entry) Map \<Rightarrow> (unit, unit) Data \<Rightarrow> (Id, Vector) Map" where
  "no_scores idx d = []"

text \<open>
  Stand-ins for the imports of the standards extension, for the examples that build
  an impact: two factors at the indices \<open>0\<close> and \<open>1\<close>, vectors of length two, and a
  \<^verbatim>\<open>combine\<close> that fails on no values and otherwise adds the values up (on a single
  value it returns that value).
\<close>

definition example_AP :: FactorScore where
  "example_AP = \<lparr>name = ''AP'', factorIndex = 0, factorWeight = Fin 1\<rparr>"

definition example_MP :: FactorScore where
  "example_MP = \<lparr>name = ''MP'', factorIndex = 1, factorWeight = Fin 1\<rparr>"

definition example_combine :: "unit \<Rightarrow> number list \<Rightarrow> number \<Rightarrow> error + number" where
  "example_combine context vals w =
     (case vals of [] \<Rightarrow> Inl EmptyCombineInput | v # rest \<Rightarrow> Inr (foldl num_add v rest))"

definition example_newZeroVector :: "unit \<Rightarrow> Vector" where
  "example_newZeroVector context = [Some (Fin 0), Some (Fin 0)]"

definition example_imports :: "(unit, number) Imports" where
  "example_imports =
     \<lparr>combine = example_combine, newZeroVector = example_newZeroVector,
      Emotion_subscoreWeight = Fin 1, AP = example_AP, MP = example_MP\<rparr>"

text \<open>A period from the epoch to one day later, and a period of twenty days.\<close>

definition one_day_forward :: DatePeriod where
  "one_day_forward = FromToPeriod 0 86400000"

definition twenty_days :: DatePeriod where
  "twenty_days = DurationPeriod 1728000000"

text \<open>Three entries, the first and the last with the same id.\<close>

definition duplicate_entries :: "(unit, nat) Entry list" where
  "duplicate_entries =
     [\<lparr>DAH_meta = 1, idE = ''A'', children = []\<rparr>,
      \<lparr>DAH_meta = 2, idE = ''B'', children = []\<rparr>,
      \<lparr>DAH_meta = 3, idE = ''A'', children = []\<rparr>]"

section \<open>The entry index\<close>

lemma find_append_last:
  "find P (xs @ [a]) =
     (case find P xs of None \<Rightarrow> (if P a then Some a else None) | Some x \<Rightarrow> Some x)"
  by (induction xs) auto

lemma map_of_foldl_update:
  "map_of (foldl (\<lambda>m entry. AList.update (idE entry) entry m) acc ents) k =
     (case find (\<lambda>e. idE e = k) (rev ents) of None \<Rightarrow> map_of acc k | Some e \<Rightarrow> Some e)"
  by (induction ents arbitrary: acc)
    (auto simp: update_conv' find_append_last split: option.splits)

lemma set_update_subset: "set (AList.update k v al) \<subseteq> insert (k, v) (set al)"
  by (induction al) auto

lemma keys_foldl_update:
  "list_all (\<lambda>(k, e). idE e = k) acc \<Longrightarrow>
   list_all (\<lambda>(k, e). idE e = k) (foldl (\<lambda>m entry. AList.update (idE entry) entry m) acc ents)"
proof (induction ents arbitrary: acc)
  case Nil
  then show ?case by simp
next
  case (Cons a ents)
  have "set (AList.update (idE a) a acc) \<subseteq> insert (idE a, a) (set acc)"
    by (rule set_update_subset)
  with Cons.prems have "list_all (\<lambda>(k, e). idE e = k) (AList.update (idE a) a acc)"
    by (auto simp: list_all_iff)
  then show ?case using Cons.IH by simp
qed

lemma distinct_foldl_update:
  "distinct (map fst acc) \<Longrightarrow>
   distinct (map fst (foldl (\<lambda>m entry. AList.update (idE entry) entry m) acc ents))"
  by (induction ents arbitrary: acc) (auto simp: distinct_update)

text \<open>
  Claim C2. \<^verbatim>\<open>indexEntry\<close> returns, for every list of entries, a map in which looking
  an id up gives the last entry of the list that has this id (none when no entry has
  it): a later entry overwrites an earlier one of the same id. Every entry of the map is
  stored under its own \<^verbatim>\<open>id\<close> field, and the keys are distinct. The function is total:
  no input makes it fail.
\<close>

theorem indexEntry_last_write_wins:
  "map_of (indexEntry ents) k = find (\<lambda>e. idE e = k) (rev ents)
   \<and> list_all (\<lambda>(k, e). idE e = k) (indexEntry ents)
   \<and> distinct (map fst (indexEntry ents))"
  unfolding indexEntry_def
  using map_of_foldl_update [of "[]" ents k] keys_foldl_update [of "[]" ents]
    distinct_foldl_update [of "[]" ents]
  by (simp split: option.splits)

theorem indexEntry_last_write_wins_witness:
  "map_of (indexEntry duplicate_entries) ''A'' = Some \<lparr>DAH_meta = 3, idE = ''A'', children = []\<rparr>
   \<and> map_of (indexEntry duplicate_entries) ''B'' = Some \<lparr>DAH_meta = 2, idE = ''B'', children = []\<rparr>
   \<and> map_of (indexEntry duplicate_entries) ''C'' = None"
  using indexEntry_last_write_wins [of duplicate_entries "''A''"]
    indexEntry_last_write_wins [of duplicate_entries "''B''"]
    indexEntry_last_write_wins [of duplicate_entries "''C''"]
  by (simp add: duplicate_entries_def)

section \<open>Validation of domain inputs\<close>

text \<open>
  What the range-clamping helper does on the input range \<open>[0, 1]\<close>: it divides by
  \<open>inp - iMax\<close>, so for a finite input \<open>x\<close> the factor is \<open>x / (x - 1)\<close>, and in exact
  arithmetic it raises exactly when \<open>x\<close> is positive. (Where the subtraction rounds,
  for an input so large that \<open>x - 1\<close> is \<open>x\<close> again, the factor is \<open>1\<close> and nothing is
  raised; the lemma says nothing of such inputs.)
\<close>

lemma mapClampThrow_unit_range:
  "mapClampThrow (Fin x) (Fin 0) (Fin 1) (Fin a) (Fin b) =
     (if 0 < x
      then Inl (ValueOutOfBounds (if x = 1 then PosInf else Fin (x / (x - 1))) (Fin 0) (Fin 1))
      else Inr (Fin (a + (b - a) * (x / (x - 1)))))"
proof -
  consider "x \<le> 0" | "0 < x" "x < 1" | "x = 1" | "1 < x" by linarith
  then show ?thesis
  proof cases
    case 1
    then have "0 \<le> x / (x - 1)" "x / (x - 1) \<le> 1"
      by (auto simp: field_simps zero_le_divide_iff)
    with 1 show ?thesis
      by (auto simp: mapClampThrow_def num_sub_def num_gt_def signed_inf_def Let_def)
  next
    case 2
    then have "x / (x - 1) < 0" by (simp add: divide_less_0_iff)
    with 2 show ?thesis
      by (auto simp: mapClampThrow_def num_sub_def num_gt_def signed_inf_def Let_def)
  next
    case 3
    then show ?thesis
      by (auto simp: mapClampThrow_def num_sub_def num_gt_def signed_inf_def Let_def)
  next
    case 4
    then have "1 < x / (x - 1)" by (simp add: field_simps)
    with 4 show ?thesis
      by (auto simp: mapClampThrow_def num_sub_def num_gt_def signed_inf_def Let_def)
  qed
qed

text \<open>
  Claim C1. The claim is that \<^verbatim>\<open>aei\<close>, \<^verbatim>\<open>epi\<close> and \<^verbatim>\<open>osuSong\<close> raise the validation
  error exactly for an input outside \<open>[0, 1]\<close>. The code does otherwise: at the input
  \<open>1/2\<close>, inside the range, each of the three raises the out-of-bounds error with the
  factor \<open>-1\<close>, whatever the other arguments are; and at the input \<open>-1\<close>, outside the
  range, the helper raises nothing and returns the middle of the output range.
\<close>

theorem range_helper_rejects_one_half:
  "epi I context contribs (Fin (1/2)) = Inl (ValueOutOfBounds (Fin (- 1)) (Fin 0) (Fin 1))
   \<and> aei I context contribs (Fin (1/2)) sign emotions =
       Inl (ValueOutOfBounds (Fin (- 1)) (Fin 0) (Fin 1))
   \<and> osuSong I context contribs (Fin (1/2)) community =
       Inl (ValueOutOfBounds (Fin (- 1)) (Fin 0) (Fin 1))
   \<and> mapClampThrow (Fin (- 1)) (Fin 0) (Fin 1) (Fin 3.5) (Fin 4.5) = Inr (Fin 4)"
  by (simp add: epi_def aei_def osuSong_def mapClampThrow_unit_range)

lemma meme_strength_check:
  "x < 0 \<or> 2 \<le> x \<Longrightarrow>
   meme I context contribs (Fin x) periods = Inl (StrengthNotInRange (Fin x))"
  by (auto simp: meme_def num_ge_def num_le_def)

lemma meme_accepts_below_two:
  "0 \<le> x \<Longrightarrow> x < 2 \<Longrightarrow>
     meme I context contribs (Fin x) periods =
       emotion I context contribs
         (num_mul (num_mul (Fin x)
            (num_pow (num_div (as_days (periodsLength periods)) (Fin 120)) (factorWeight (AP I))))
            (Fin 4))
         [(AP I, Fin 1)] ''meme''
         [(''memeArgs'', MObject [(''strength'', MNumber (Fin x)),
                                  (''periods'', MArray (map periodMeta periods)),
                                  (''duration'', MISO (periodsLength periods))])]"
  by (simp add: meme_def num_ge_def num_le_def Let_def)

text \<open>
  Claim C3. The claim is that \<^verbatim>\<open>meme\<close> raises its strength error exactly for a strength
  outside \<open>[0, 2]\<close>. The code does otherwise at the upper end of the range: the strength
  \<open>2\<close> is rejected, for every period list.
\<close>

theorem meme_rejects_strength_two:
  "meme I context contribs (Fin 2) periods = Inl (StrengthNotInRange (Fin 2))"
  by (simp add: meme_strength_check)

section \<open>Empty emotion lists\<close>

lemma emotionVector_empty:
  "emotionVector I context baseScore [] = Inl (AssertionFailed ''empty emotion list'')"
  by (simp add: emotionVector_def assert_def)

lemma emotion_empty:
  "emotion I context contribs base [] nm m = Inl (AssertionFailed ''empty emotion list'')"
  by (simp add: emotion_def emotionVector_empty)

text \<open>
  Claim C4. Every constructor that takes a list of weighted emotions fails on the empty
  list and constructs no impact: \<^verbatim>\<open>emotion\<close>, \<^verbatim>\<open>cry\<close>, \<^verbatim>\<open>pads\<close> and \<^verbatim>\<open>xei\<close> fail
  with the assertion on the emotion list, before \<^verbatim>\<open>combine\<close> is called, and \<^verbatim>\<open>aei\<close>,
  \<^verbatim>\<open>nei\<close>, \<^verbatim>\<open>maxAEIPADS\<close> and \<^verbatim>\<open>cryPADS\<close> fail with it or, earlier, with the error of
  the range-clamping helper.
\<close>

theorem empty_emotions_fail:
  "emotion I context contribs base [] nm m = Inl (AssertionFailed ''empty emotion list'')
   \<and> cry I context contribs [] = Inl (AssertionFailed ''empty emotion list'')
   \<and> pads I context contribs periods [] = Inl (AssertionFailed ''empty emotion list'')
   \<and> xei I context contribs nm factor sign base [] = Inl (AssertionFailed ''empty emotion list'')
   \<and> isl (aei I context contribs factor sign [])
   \<and> isl (nei I context contribs factor sign [])
   \<and> isl (maxAEIPADS I context contribs periods [])
   \<and> isl (cryPADS I context contribs periods [])"
  by (simp add: cry_def pads_def xei_def aei_def nei_def maxAEIPADS_def cryPADS_def
      emotion_empty Let_def split: sum.splits)

section \<open>Period lengths\<close>

lemma periodsLength_single: "periodsLength [p] = periodLength p"
  by (simp add: periodsLength_def fromMillis_def plus_duration_def)

lemma not_int_13_10: "(1.3::real) \<notin> \<int>"
proof
  assume "(1.3::real) \<in> \<int>"
  then obtain k :: int where "(1.3::real) = of_int k" by (auto elim: Ints_cases)
  then have "(13::real) = of_int (10 * k)" by simp
  then have "(13::int) = 10 * k" using of_int_eq_iff[where 'a=real] by (metis of_int_numeral)
  then show False by presburger
qed

lemma pads_unfold:
  "pads I context contribs periods emotions =
     emotion I context contribs
       (num_mul (Fin 0.3) (num_pow (num_min (Fin 10) (as_days (periodsLength periods))) (Fin 1.3)))
       emotions ''pads''
       [(''padsArgs'', MObject [(''duration'', MDuration (periodsLength periods)),
                                (''days'', MNumber (as_days (periodsLength periods))),
                                (''periods'', MArray (map periodMeta periods))])]"
  by (simp add: pads_def Let_def)

lemma waifu_unfold:
  "waifu I context contribs w periods =
     emotion I context contribs
       (num_mul (Fin 1.2)
          (num_pow (num_div (as_days (periodsLength periods)) (Fin 90)) (factorWeight (MP I))))
       [(MP I, Fin 1)] ''waifu''
       [(''waifuArgs'', MObject [(''waifu'', MString w),
                                 (''duration'', MDuration (periodsLength periods)),
                                 (''days'', MNumber (as_days (periodsLength periods))),
                                 (''periods'', MArray (map periodMeta periods))])]"
  by (simp add: waifu_def Let_def)

lemma meme_unfold:
  "meme I context contribs strength periods =
     (if num_lt strength (Fin 0) \<or> num_ge strength (Fin 2)
      then Inl (StrengthNotInRange strength)
      else emotion I context contribs
             (num_mul (num_mul strength
                (num_pow (num_div (as_days (periodsLength periods)) (Fin 120))
                   (factorWeight (AP I)))) (Fin 4))
             [(AP I, Fin 1)] ''meme''
             [(''memeArgs'', MObject [(''strength'', MNumber strength),
                                      (''periods'', MArray (map periodMeta periods)),
                                      (''duration'', MISO (periodsLength periods))])])"
  by (simp add: meme_def Let_def)

text \<open>
  Claim C9. For a from/to period whose \<^verbatim>\<open>to\<close> is strictly later than its \<^verbatim>\<open>from\<close>, the
  period length is \<^verbatim>\<open>from.diff(to)\<close>, a strictly negative duration. Given this period alone,
  \<^verbatim>\<open>pads\<close>, \<^verbatim>\<open>waifu\<close> and \<^verbatim>\<open>meme\<close> each take this negative length as the total duration:
  the day count they compute is strictly negative, it is the number their base score is
  computed from (\<^verbatim>\<open>pads\<close>: \<open>0.3 * days ^ 1.3\<close>, the minimum with \<open>10\<close> being the day count
  itself; \<^verbatim>\<open>waifu\<close>: \<open>1.2 * (days / 90) ^ w\<close>; \<^verbatim>\<open>meme\<close>, past its strength check:
  \<open>strength * (days / 120) ^ w * 4\<close>), and it is what they record as duration and days.
\<close>

theorem forward_period_negative:
  "from_dt < to_dt \<Longrightarrow>
     periodLength (FromToPeriod from_dt to_dt) = diff from_dt to_dt
   \<and> diff from_dt to_dt < 0
   \<and> diff from_dt to_dt / 86400000 < 0
   \<and> pads I context contribs [FromToPeriod from_dt to_dt] emotions =
        emotion I context contribs
          (num_mul (Fin 0.3) (num_pow (Fin (diff from_dt to_dt / 86400000)) (Fin 1.3)))
          emotions ''pads''
          [(''padsArgs'', MObject [(''duration'', MDuration (diff from_dt to_dt)),
             (''days'', MNumber (Fin (diff from_dt to_dt / 86400000))),
             (''periods'', MArray [periodMeta (FromToPeriod from_dt to_dt)])])]
   \<and> waifu I context contribs w [FromToPeriod from_dt to_dt] =
        emotion I context contribs
          (num_mul (Fin 1.2)
             (num_pow (Fin (diff from_dt to_dt / 86400000 / 90)) (factorWeight (MP I))))
          [(MP I, Fin 1)] ''waifu''
          [(''waifuArgs'', MObject [(''waifu'', MString w),
             (''duration'', MDuration (diff from_dt to_dt)),
             (''days'', MNumber (Fin (diff from_dt to_dt / 86400000))),
             (''periods'', MArray [periodMeta (FromToPeriod from_dt to_dt)])])]
   \<and> meme I context contribs strength [FromToPeriod from_dt to_dt] =
        (if num_lt strength (Fin 0) \<or> num_ge strength (Fin 2)
         then Inl (StrengthNotInRange strength)
         else emotion I context contribs
                (num_mul (num_mul strength
                   (num_pow (Fin (diff from_dt to_dt / 86400000 / 120)) (factorWeight (AP I))))
                   (Fin 4))
                [(AP I, Fin 1)] ''meme''
                [(''memeArgs'', MObject [(''strength'', MNumber strength),
                   (''periods'', MArray [periodMeta (FromToPeriod from_dt to_dt)]),
                   (''duration'', MISO (diff from_dt to_dt))])])"
proof -
  assume lt: "from_dt < to_dt"
  let ?p = "FromToPeriod from_dt to_dt"
  let ?d = "diff from_dt to_dt / 86400000"
  from lt have neg: "diff from_dt to_dt < 0" by (simp add: diff_def)
  then have negd: "?d < 0" by (simp add: divide_less_0_iff)
  have len: "periodsLength [?p] = diff from_dt to_dt"
    by (simp add: periodsLength_single)
  have days: "as_days (periodsLength [?p]) = Fin ?d"
    by (simp add: len as_days_def)
  have min: "num_min (Fin 10) (Fin ?d) = Fin ?d"
    using negd by (simp add: num_min_def)
  have p: "pads I context contribs [?p] emotions =
        emotion I context contribs (num_mul (Fin 0.3) (num_pow (Fin ?d) (Fin 1.3)))
          emotions ''pads''
          [(''padsArgs'', MObject [(''duration'', MDuration (diff from_dt to_dt)),
             (''days'', MNumber (Fin ?d)), (''periods'', MArray [periodMeta ?p])])]"
    unfolding pads_unfold unfolding days unfolding min unfolding len by simp
  have w: "waifu I context contribs w [?p] =
        emotion I context contribs
          (num_mul (Fin 1.2) (num_pow (Fin (?d / 90)) (factorWeight (MP I))))
          [(MP I, Fin 1)] ''waifu''
          [(''waifuArgs'', MObject [(''waifu'', MString w),
             (''duration'', MDuration (diff from_dt to_dt)),
             (''days'', MNumber (Fin ?d)), (''periods'', MArray [periodMeta ?p])])]"
    unfolding waifu_unfold unfolding days unfolding len by simp
  have m: "meme I context contribs strength [?p] =
        (if num_lt strength (Fin 0) \<or> num_ge strength (Fin 2)
         then Inl (StrengthNotInRange strength)
         else emotion I context contribs
                (num_mul (num_mul strength
                   (num_pow (Fin (?d / 120)) (factorWeight (AP I)))) (Fin 4))
                [(AP I, Fin 1)] ''meme''
                [(''memeArgs'', MObject [(''strength'', MNumber strength),
                   (''periods'', MArray [periodMeta ?p]),
                   (''duration'', MISO (diff from_dt to_dt))])])"
    unfolding meme_unfold unfolding days unfolding len by simp
  have pl: "periodLength ?p = diff from_dt to_dt" by simp
  from pl neg negd p w m show ?thesis by (intro conjI)
qed

theorem forward_period_negative_witness:
  "(0::int) < 86400000
   \<and> periodLength (FromToPeriod 0 86400000) = - 86400000
   \<and> pads example_imports () [] [FromToPeriod 0 86400000] [(example_AP, Fin 1)] =
        emotion example_imports () []
          (num_mul (Fin 0.3) (num_pow (Fin (- 1)) (Fin 1.3)))
          [(example_AP, Fin 1)] ''pads''
          [(''padsArgs'', MObject [(''duration'', MDuration (- 86400000)),
             (''days'', MNumber (Fin (- 1))),
             (''periods'', MArray [periodMeta (FromToPeriod 0 86400000)])])]
   \<and> waifu example_imports () [] ''w'' [FromToPeriod 0 86400000] =
        emotion example_imports () []
          (num_mul (Fin 1.2) (num_pow (Fin (- 1 / 90)) (factorWeight (MP example_imports))))
          [(MP example_imports, Fin 1)] ''waifu''
          [(''waifuArgs'', MObject [(''waifu'', MString ''w''),
             (''duration'', MDuration (- 86400000)),
             (''days'', MNumber (Fin (- 1))),
             (''periods'', MArray [periodMeta (FromToPeriod 0 86400000)])])]"
  using forward_period_negative [of 0 86400000 example_imports "()" "[]"
      "[(example_AP, Fin 1)]" "''w''" "Fin 1"]
  by (simp add: diff_def)

lemma pads_base_negative:
  "d < 0 \<Longrightarrow> num_mul (Fin 0.3) (num_pow (num_min (Fin 10) (Fin d)) (Fin 1.3)) = NaN"
  by (simp add: num_min_def not_int_13_10)

lemma pads_base_nonnegative:
  "0 \<le> d \<Longrightarrow>
   num_mul (Fin 0.3) (num_pow (num_min (Fin 10) (Fin d)) (Fin 1.3)) =
     Fin (0.3 * (min 10 d) powr 1.3)"
  by (auto simp: num_min_def min_def)

lemma pads_base_ten: "num_mul (Fin 0.3) (num_pow (Fin 10) (Fin 1.3)) = Fin (0.3 * 10 powr 1.3)"
  by simp

text \<open>
  Claim C10, as stated, fails on a period list of negative total length. For the single
  period from the epoch to one day later the day count is \<open>-1\<close>, the power of a negative
  number with the exponent \<open>1.3\<close> is \<^verbatim>\<open>NaN\<close>, and \<^verbatim>\<open>pads\<close> builds an impact whose base
  and score are \<^verbatim>\<open>NaN\<close>; \<^verbatim>\<open>NaN\<close> is not less than or equal to any bound.
\<close>

theorem pads_forward_day_base_nan:
  "pads example_imports () [] [one_day_forward] [(example_AP, Fin 1)] =
     Inr \<lparr>DAH_meta =
            [(''DAH_ir_source'', MObject
               [(''extension'', MString ''DAH_standards''),
                (''version'', MString ''1.1.1''),
                (''name'', MString ''pads''),
                (''emotionArgs'', MObject
                   [(''base'', MNumber NaN),
                    (''emotions'', MObject [(''AP'', MNumber (Fin 1))])]),
                (''padsArgs'', MObject
                   [(''duration'', MDuration (- 86400000)),
                    (''days'', MNumber (Fin (- 1))),
                    (''periods'', MArray
                       [MObject [(''type'', MString ''fromto''), (''from'', MDateTime 0),
                                 (''to'', MDateTime 86400000),
                                 (''duration'', MISO (- 86400000))]])])])],
          contributors = [], score = [Some NaN, Some (Fin 0)]\<rparr>
   \<and> \<not> num_le NaN (num_mul (Fin 0.3) (num_pow (Fin 10) (Fin 1.3)))"
proof -
  have len: "periodsLength [one_day_forward] = - 86400000"
    by (simp add: one_day_forward_def periodsLength_single diff_def)
  have days: "as_days (periodsLength [one_day_forward]) = Fin (- 1)"
    by (simp add: len as_days_def)
  have base: "num_mul (Fin 0.3) (num_pow (num_min (Fin 10) (Fin (- 1))) (Fin 1.3)) = NaN"
    by (rule pads_base_negative) simp
  have call: "pads example_imports () [] [one_day_forward] [(example_AP, Fin 1)] =
      emotion example_imports () [] NaN [(example_AP, Fin 1)] ''pads''
        [(''padsArgs'', MObject [(''duration'', MDuration (- 86400000)),
           (''days'', MNumber (Fin (- 1))),
           (''periods'', MArray [periodMeta one_day_forward])])]"
    unfolding pads_unfold unfolding days unfolding base unfolding len by simp
  have vec: "emotionVector example_imports () NaN [(example_AP, Fin 1)] =
      Inr [Some NaN, Some (Fin 0)]"
    by (simp add: emotionVector_def assert_def example_imports_def example_combine_def
        example_newZeroVector_def example_AP_def vec_set_def)
  have meta: "impactMeta (spread [(''name'', MString ''pads''),
        (''emotionArgs'', emotionMeta NaN [(example_AP, Fin 1)])]
        [(''padsArgs'', MObject [(''duration'', MDuration (- 86400000)),
           (''days'', MNumber (Fin (- 1))),
           (''periods'', MArray [periodMeta one_day_forward])])]) =
      [(''DAH_ir_source'', MObject
         [(''extension'', MString ''DAH_standards''),
          (''version'', MString ''1.1.1''),
          (''name'', MString ''pads''),
          (''emotionArgs'', MObject
             [(''base'', MNumber NaN),
              (''emotions'', MObject [(''AP'', MNumber (Fin 1))])]),
          (''padsArgs'', MObject
             [(''duration'', MDuration (- 86400000)),
              (''days'', MNumber (Fin (- 1))),
              (''periods'', MArray
                 [MObject [(''type'', MString ''fromto''), (''from'', MDateTime 0),
                           (''to'', MDateTime 86400000),
                           (''duration'', MISO (- 86400000))]])])])]"
    by (simp add: impactMeta_def irMeta_def spread_def emotionMeta_def
        emotionPairsToObject_def example_AP_def one_day_forward_def diff_def)
  have nle: "\<not> num_le NaN (num_mul (Fin 0.3) (num_pow (Fin 10) (Fin 1.3)))"
    by (simp add: num_le_def)
  show ?thesis
    unfolding call emotion_def vec meta using nle by simp
qed

text \<open>
  Claim C10, amended. For every contributor map, emotion list and list of periods (of
  valid dates and finite lengths) whose total length is not negative, the base that
  \<^verbatim>\<open>pads\<close> hands on is \<open>0.3 * min(10, days) ^ 1.3\<close>, a number from \<open>0\<close> up to the value
  \<open>0.3 * 10 ^ 1.3\<close> that the code computes for ten days; for every total length of ten
  days or more the base is this very value, so a longer period raises it no further.
  For a negative total length the base is \<^verbatim>\<open>NaN\<close>.
\<close>

theorem pads_base_clamped:
  "(0 \<le> periodsLength periods \<longrightarrow>
      pads I context contribs periods emotions =
        emotion I context contribs
          (Fin (0.3 * (min 10 (periodsLength periods / 86400000)) powr 1.3))
          emotions ''pads''
          [(''padsArgs'', MObject [(''duration'', MDuration (periodsLength periods)),
             (''days'', MNumber (as_days (periodsLength periods))),
             (''periods'', MArray (map periodMeta periods))])]
      \<and> 0 \<le> 0.3 * (min 10 (periodsLength periods / 86400000)) powr 1.3
      \<and> num_le (Fin (0.3 * (min 10 (periodsLength periods / 86400000)) powr 1.3))
          (num_mul (Fin 0.3) (num_pow (Fin 10) (Fin 1.3))))
   \<and> (864000000 \<le> periodsLength periods \<longrightarrow>
      pads I context contribs periods emotions =
        emotion I context contribs (num_mul (Fin 0.3) (num_pow (Fin 10) (Fin 1.3)))
          emotions ''pads''
          [(''padsArgs'', MObject [(''duration'', MDuration (periodsLength periods)),
             (''days'', MNumber (as_days (periodsLength periods))),
             (''periods'', MArray (map periodMeta periods))])])
   \<and> (periodsLength periods < 0 \<longrightarrow>
      pads I context contribs periods emotions =
        emotion I context contribs NaN emotions ''pads''
          [(''padsArgs'', MObject [(''duration'', MDuration (periodsLength periods)),
             (''days'', MNumber (as_days (periodsLength periods))),
             (''periods'', MArray (map periodMeta periods))])])"
proof -
  define d where "d = periodsLength periods / 86400000"
  have days: "as_days (periodsLength periods) = Fin d"
    by (simp add: as_days_def d_def)
  have sign: "0 \<le> periodsLength periods \<longleftrightarrow> 0 \<le> d" "periodsLength periods < 0 \<longleftrightarrow> d < 0"
    "864000000 \<le> periodsLength periods \<longleftrightarrow> 10 \<le> d"
    by (simp_all add: d_def field_simps)
  have bound: "(min 10 d) powr 1.3 \<le> 10 powr 1.3" if "0 \<le> d"
    using that by (intro powr_mono2) auto
  have le: "num_le (Fin (0.3 * (min 10 d) powr 1.3)) (num_mul (Fin 0.3) (num_pow (Fin 10) (Fin 1.3)))"
    if "0 \<le> d"
    using bound [OF that] by (simp add: num_le_def)
  have a: "pads I context contribs periods emotions =
        emotion I context contribs (Fin (0.3 * (min 10 d) powr 1.3)) emotions ''pads''
          [(''padsArgs'', MObject [(''duration'', MDuration (periodsLength periods)),
             (''days'', MNumber (Fin d)), (''periods'', MArray (map periodMeta periods))])]"
    if "0 \<le> d"
    unfolding pads_unfold days pads_base_nonnegative [OF that] by (rule refl)
  have b: "pads I context contribs periods emotions =
        emotion I context contribs (num_mul (Fin 0.3) (num_pow (Fin 10) (Fin 1.3))) emotions ''pads''
          [(''padsArgs'', MObject [(''duration'', MDuration (periodsLength periods)),
             (''days'', MNumber (Fin d)), (''periods'', MArray (map periodMeta periods))])]"
    if "10 \<le> d"
  proof -
    from that have "num_min (Fin 10) (Fin d) = Fin 10" by (simp add: num_min_def)
    then show ?thesis unfolding pads_unfold days by simp
  qed
  have c: "pads I context contribs periods emotions =
        emotion I context contribs NaN emotions ''pads''
          [(''padsArgs'', MObject [(''duration'', MDuration (periodsLength periods)),
             (''days'', MNumber (Fin d)), (''periods'', MArray (map periodMeta periods))])]"
    if "d < 0"
    unfolding pads_unfold days pads_base_negative [OF that] by (rule refl)
  show ?thesis
    unfolding days sign d_def [symmetric]
    using a b c le by simp
qed

theorem pads_base_clamped_witness:
  "0 \<le> periodsLength [twenty_days] \<and> 864000000 \<le> periodsLength [twenty_days]
   \<and> pads example_imports () [] [twenty_days] [(example_AP, Fin 1)] =
        emotion example_imports () [] (num_mul (Fin 0.3) (num_pow (Fin 10) (Fin 1.3)))
          [(example_AP, Fin 1)] ''pads''
          [(''padsArgs'', MObject [(''duration'', MDuration 1728000000),
             (''days'', MNumber (Fin 20)),
             (''periods'', MArray [periodMeta twenty_days])])]
   \<and> periodsLength [one_day_forward] < 0
   \<and> pads example_imports () [] [one_day_forward] [(example_AP, Fin 1)] =
        emotion example_imports () [] NaN [(example_AP, Fin 1)] ''pads''
          [(''padsArgs'', MObject [(''duration'', MDuration (- 86400000)),
             (''days'', MNumber (Fin (- 1))),
             (''periods'', MArray [periodMeta one_day_forward])])]"
proof -
  have l20: "periodsLength [twenty_days] = 1728000000"
    by (simp add: twenty_days_def periodsLength_single)
  have l1: "periodsLength [one_day_forward] = - 86400000"
    by (simp add: one_day_forward_def periodsLength_single diff_def)
  show ?thesis
    using pads_base_clamped [of "[twenty_days]" example_imports "()" "[]" "[(example_AP, Fin 1)]"]
      pads_base_clamped [of "[one_day_forward]" example_imports "()" "[]" "[(example_AP, Fin 1)]"]
    by (simp add: l20 l1 as_days_def)
qed

section \<open>Initialization order of the extensions\<close>

lemma resolve_from_order:
  "resolve_from pending initialized = Inr ord \<Longrightarrow>
   \<exists>rest. ord = initialized @ rest \<and>
     (\<forall>ext \<in> set pending. \<exists>pre post. rest = pre @ fst ext # post \<and>
        set (snd ext) \<subseteq> set initialized \<union> set pre)"
proof (induction pending initialized rule: resolve_from.induct)
  case (1 pending initialized)
  show ?case
  proof (cases "pending = []")
    case True
    with "1.prems" show ?thesis by (simp add: resolve_from.simps)
  next
    case False
    with "1.prems" obtain ext where
      f: "find (\<lambda>ext. set (snd ext) \<subseteq> set initialized) pending = Some ext"
      and r: "resolve_from (remove1 ext pending) (initialized @ [fst ext]) = Inr ord"
      by (subst (asm) resolve_from.simps) (auto split: option.splits)
    from f have ready: "set (snd ext) \<subseteq> set initialized" and mem: "ext \<in> set pending"
      by (auto simp: find_Some_iff)
    from "1.IH" [OF False f r] obtain rest where
      ord: "ord = (initialized @ [fst ext]) @ rest"
      and later: "\<forall>x \<in> set (remove1 ext pending). \<exists>pre post. rest = pre @ fst x # post \<and>
        set (snd x) \<subseteq> set (initialized @ [fst ext]) \<union> set pre"
      by blast
    have "\<exists>pre post. fst ext # rest = pre @ fst x # post \<and>
        set (snd x) \<subseteq> set initialized \<union> set pre" if "x \<in> set pending" for x
    proof (cases "x = ext")
      case True
      with ready have "fst ext # rest = [] @ fst x # rest \<and> set (snd x) \<subseteq> set initialized \<union> set []"
        by simp
      then show ?thesis by blast
    next
      case False
      with that have "x \<in> set (remove1 ext pending)" by simp
      with later obtain pre post where "rest = pre @ fst x # post"
        and "set (snd x) \<subseteq> set (initialized @ [fst ext]) \<union> set pre" by blast
      then have "fst ext # rest = (fst ext # pre) @ fst x # post \<and>
        set (snd x) \<subseteq> set initialized \<union> set (fst ext # pre)" by auto
      then show ?thesis by blast
    qed
    with ord show ?thesis by auto
  qed
qed

lemma resolve_standards_and_factors:
  "resolve [DAH_standards, (''DAH_factors'', [])] = Inr [''DAH_factors'', ''DAH_standards'']"
  by (simp add: resolve_def DAH_standards_def dependencies_def resolve_from.simps)

text \<open>
  Claim C8. \<^verbatim>\<open>dependencies()\<close> of the standards extension returns exactly the
  one-element list with the name \<open>DAH_factors\<close>. Hence, whenever the resolver succeeds
  on a list of extensions that holds the standards extension, the order it returns
  initializes \<open>DAH_factors\<close> strictly before \<open>DAH_standards\<close>.
\<close>

theorem standards_after_factors:
  "dependencies = [''DAH_factors''] \<and>
   (DAH_standards \<in> set exts \<longrightarrow> resolve exts = Inr ord \<longrightarrow>
     (\<exists>pre post. ord = pre @ ''DAH_standards'' # post \<and> ''DAH_factors'' \<in> set pre))"
proof -
  have "\<exists>pre post. ord = pre @ ''DAH_standards'' # post \<and> ''DAH_factors'' \<in> set pre"
    if "DAH_standards \<in> set exts" and "resolve exts = Inr ord"
  proof -
    from that(2) have "resolve_from exts [] = Inr ord" by (simp add: resolve_def)
    from resolve_from_order [OF this] that(1)
    obtain pre post where "ord = pre @ fst DAH_standards # post"
      and "set (snd DAH_standards) \<subseteq> set pre" by fastforce
    then show ?thesis by (auto simp: DAH_standards_def dependencies_def)
  qed
  then show ?thesis by (simp add: dependencies_def)
qed

theorem standards_after_factors_witness:
  "DAH_standards \<in> set [DAH_standards, (''DAH_factors'', [])]
   \<and> resolve [DAH_standards, (''DAH_factors'', [])] = Inr [''DAH_factors'', ''DAH_standards'']
   \<and> (\<exists>pre post. [''DAH_factors'', ''DAH_standards''] = pre @ ''DAH_standards'' # post
         \<and> ''DAH_factors'' \<in> set pre)"
  using standards_after_factors [of "[DAH_standards, (''DAH_factors'', [])]"
      "[''DAH_factors'', ''DAH_standards'']"]
    resolve_standards_and_factors
  by simp

section \<open>Cycles in the children graph\<close>

lemma visit_all_None_iff:
  "visit_all idx path cs = None \<longleftrightarrow> (\<forall>c \<in> set cs. visit idx path c = None)"
  by (induction cs) (auto split: option.splits)

lemma visit_None_step:
  assumes "visit idx path v = None"
  shows "v \<notin> set path" and "\<forall>c \<in> set (entry_children idx v). visit idx (v # path) c = None"
proof -
  from assms show np: "v \<notin> set path" by (auto split: if_splits)
  show "\<forall>c \<in> set (entry_children idx v). visit idx (v # path) c = None"
  proof (cases "map_of idx v")
    case None
    then show ?thesis by (simp add: entry_children_def)
  next
    case (Some e)
    with assms np have "visit_all idx (v # path) (map fst (children e)) = None" by simp
    with Some show ?thesis by (simp add: entry_children_def visit_all_None_iff)
  qed
qed

text \<open>
  A visit that reports nothing reports nothing further down either: along every walk
  from its start the visits succeed, each with the earlier ids of the walk on its path.
\<close>

lemma visit_None_reach:
  assumes "(u, w) \<in> (children_graph idx)\<^sup>+" and "visit idx path u = None"
  shows "\<exists>path'. visit idx path' w = None \<and> u \<in> set path'"
  using assms
proof (induction rule: trancl_induct)
  case (base y)
  then have "visit idx (u # path) y = None"
    using visit_None_step(2) [of idx path u] by (simp add: children_graph_def)
  then show ?case by (intro exI [of _ "u # path"]) simp
next
  case (step y z)
  then obtain path' where p: "visit idx path' y = None" "u \<in> set path'" by blast
  from step.hyps(2) p(1) have "visit idx (y # path') z = None"
    using visit_None_step(2) [of idx path' y] by (simp add: children_graph_def)
  with p(2) show ?case by (intro exI [of _ "y # path'"]) simp
qed

lemma visit_on_cycle:
  assumes "(v, v) \<in> (children_graph idx)\<^sup>+"
  shows "visit idx path v \<noteq> None"
proof
  assume "visit idx path v = None"
  from visit_None_reach [OF assms this] obtain path' where
    "visit idx path' v = None" and "v \<in> set path'" by blast
  then show False using visit_None_step(1) by blast
qed

lemma on_cycle_indexed:
  assumes "(v, v) \<in> (children_graph idx)\<^sup>+"
  shows "v \<in> set (map fst idx)"
proof -
  from assms obtain w where "(v, w) \<in> children_graph idx"
    by (meson converse_tranclE)
  then have "entry_children idx v \<noteq> []"
    by (auto simp: children_graph_def)
  then obtain e where "map_of idx v = Some e"
    by (cases "map_of idx v") (auto simp: entry_children_def)
  then show ?thesis by (auto dest: map_of_SomeD intro: rev_image_eqI)
qed

lemma visit_error_kind:
  "visit idx path v = Some err \<Longrightarrow> \<exists>p. err = CyclicEntryGraph p"
  "visit_all idx path cs = Some err \<Longrightarrow> \<exists>p. err = CyclicEntryGraph p"
proof (induction idx path v and idx path cs rule: visit_visit_all.induct)
  case (1 idx path v)
  then show ?case by (auto split: if_splits option.splits)
next
  case (2 idx path)
  then show ?case by simp
next
  case (3 idx path c cs)
  then show ?case by (auto split: option.splits)
qed

lemma detect_cycle_complete:
  assumes "has_cycle idx"
  shows "\<exists>p. detect_cycle idx = Some (CyclicEntryGraph p)"
proof -
  from assms obtain v where c: "(v, v) \<in> (children_graph idx)\<^sup>+"
    by (auto simp: has_cycle_def)
  then have "v \<in> set (map fst idx)" by (rule on_cycle_indexed)
  moreover from c have "visit idx [] v \<noteq> None" by (rule visit_on_cycle)
  ultimately have "visit_all idx [] (map fst idx) \<noteq> None"
    by (auto simp: visit_all_None_iff)
  then obtain err where "visit_all idx [] (map fst idx) = Some err" by auto
  with visit_error_kind(2) [OF this] show ?thesis by (auto simp: detect_cycle_def)
qed

lemma cyclic_entries_index: "indexEntry (map snd cyclic_entries) = cyclic_entries"
  by (simp add: indexEntry_def cyclic_entries_def)

lemma cyclic_entries_cycle: "has_cycle cyclic_entries"
proof -
  have "(''A'', ''B'') \<in> children_graph cyclic_entries"
    "(''B'', ''A'') \<in> children_graph cyclic_entries"
    by (simp_all add: children_graph_def entry_children_def cyclic_entries_def)
  then have "(''A'', ''A'') \<in> (children_graph cyclic_entries)\<^sup>+" by (meson trancl.simps)
  then show ?thesis unfolding has_cycle_def by blast
qed

lemma cyclic_entries_detected:
  "detect_cycle cyclic_entries = Some (CyclicEntryGraph [''A'', ''B'', ''A''])"
  by (simp add: detect_cycle_def cyclic_entries_def)

text \<open>
  Claim C7, as stated, fails on the snapshot whose graph is \<open>A \<rightarrow> B \<rightarrow> A\<close> and in which
  an impact names the contributor \<open>Z\<close>, which is no entry: the reference check comes
  first, and the engine fails with \<open>DanglingReference\<close>, not with \<open>CyclicEntryGraph\<close>.
\<close>

theorem cycle_with_dangling_reference:
  "has_cycle (indexEntry (map snd (entries cyclic_dangling_data)))
   \<and> propagate no_scores cyclic_dangling_data = Inl (DanglingReference ''Z'')"
  using cyclic_entries_cycle
  by (simp add: cyclic_dangling_data_def cyclic_entries_index propagate_def
      check_references_def referenced_ids_def)
    (simp add: cyclic_entries_def)

text \<open>
  Claim C7, amended. For every snapshot whose children graph contains a cycle, the
  engine fails and returns no score for any entry; and when no referenced id is
  dangling, it fails with \<open>CyclicEntryGraph\<close>.
\<close>

theorem cycle_aborts_propagation:
  "has_cycle (indexEntry (map snd (entries d))) \<Longrightarrow>
     isl (propagate score_entries d)
   \<and> (check_references (indexEntry (map snd (entries d))) d = None \<longrightarrow>
        (\<exists>p. propagate score_entries d = Inl (CyclicEntryGraph p)))"
  using detect_cycle_complete [of "indexEntry (map snd (entries d))"]
  by (auto simp: propagate_def Let_def split: option.splits)

theorem cycle_aborts_propagation_witness:
  "has_cycle (indexEntry (map snd (entries cyclic_data)))
   \<and> check_references (indexEntry (map snd (entries cyclic_data))) cyclic_data = None
   \<and> propagate no_scores cyclic_data = Inl (CyclicEntryGraph [''A'', ''B'', ''A''])"
proof -
  have c: "has_cycle (indexEntry (map snd (entries cyclic_data)))"
    using cyclic_entries_cycle by (simp add: cyclic_data_def cyclic_entries_index)
  have r: "check_references (indexEntry (map snd (entries cyclic_data))) cyclic_data = None"
    by (simp add: cyclic_data_def cyclic_entries_index check_references_def referenced_ids_def)
      (simp add: cyclic_entries_def)
  have "propagate no_scores cyclic_data = Inl (CyclicEntryGraph [''A'', ''B'', ''A''])"
    using cycle_aborts_propagation [OF c, of no_scores] r cyclic_entries_detected
    by (auto simp: propagate_def cyclic_data_def cyclic_entries_index)
  with c r show ?thesis by simp
qed

end
